theory Spec2Isabelle
  imports Complex_Main "HOL-Library.Multiset"
begin

section \<open>The participant record and the distance metric of main.py\<close>

text \<open>
  Python strings are modelled as \<open>string\<close>, the UTF-8 bytes of the text. The program only
  tests strings for emptiness and equality and passes them on, and UTF-8 encoding is injective
  and maps the empty string to the empty list, so nothing the program observes is lost.
  Python's unbounded integers are \<open>int\<close>.
\<close>

text \<open>
  The exceptions and failure signals the development talks about. \<open>IndexError\<close> is
  Python's own: \<open>random.choice\<close> raises it on an empty sequence, and list indexing raises
  it out of range. \<open>DimensionMismatch\<close> and \<open>PoolExhausted\<close> are the failure signals of
  the specification's error taxonomy; no path of main.py raises them, they are here so that
  statements about them can be written down.
\<close>

datatype error = IndexError | DimensionMismatch | PoolExhausted

text \<open>\<open>class User\<close>: the three attributes set by \<open>__init__\<close>.\<close>

record user =
  name :: string
  choices :: "int list"
  comment :: string

text \<open>
  The literal of line 13, three CJK code points (U+7121, U+56DE, U+7B54, "no answer"),
  as its nine UTF-8 bytes.
\<close>

definition no_answer :: string where
  "no_answer = [CHR 0xE7, CHR 0x84, CHR 0xA1, CHR 0xE5, CHR 0x9B, CHR 0x9E, CHR 0xE7, CHR 0xAD, CHR 0x94]"

text \<open>
  \<open>User.__init__\<close> (lines 10-13): name and choices are stored as given;
  \<open>comment if comment else ...\<close> replaces a falsy (empty) comment by the literal.
\<close>

definition User :: "string \<Rightarrow> int list \<Rightarrow> string \<Rightarrow> user" where
  "User nm chs cmt =
     \<lparr>name = nm, choices = chs, comment = (if cmt \<noteq> [] then cmt else no_answer)\<rparr>"

text \<open>
  \<open>User.distance\<close> (lines 15-17): \<open>zip\<close> pairs the two choice lists up to the shorter
  one, the comprehension squares each difference, \<open>sum\<close> adds them up from 0. Nothing in
  the body raises on integer lists, so the result is always a returned value.
\<close>

definition distance :: "user \<Rightarrow> user \<Rightarrow> error + int" where
  "distance self usr =
     Inr (sum_list (map (\<lambda>(s, u). (s - u) ^ 2) (zip (choices self) (choices usr))))"

section \<open>The vector store behind class DB\<close>

text \<open>
  \<open>class DB\<close> keeps one attribute that matters, \<open>self.collection\<close>, a collection of the
  external vector-indexing engine. The engine is not part of the repository; its five
  operations that main.py calls are modelled below from section 6 of the specification.
  The state of a collection is the list of its entries in insertion order, the distance
  function the engine ranks by (a parameter of the model: the repository does not fix it),
  and the log of the operations issued so far, which makes "no query was issued" a statement
  about the state.
\<close>

record entry =
  entry_id :: string
  embedding :: "int list"
  metadata_name :: string
  document :: string

datatype call =
    Upsert_call string "int list" string string
  | Peek_call
  | Get_call string
  | Count_call
  | Query_call "int list" nat

record collection =
  entries :: "entry list"
  space :: "int list \<Rightarrow> int list \<Rightarrow> real"
  calls :: "call list"

text \<open>
  Modelled from the spec: the write of one entry of the engine, "writes or overwrites the
  entry for id" with full replacement: an entry with the same key is replaced where it
  stands, a new key is appended.
\<close>

fun put_entry :: "entry \<Rightarrow> entry list \<Rightarrow> entry list" where
  "put_entry e [] = [e]"
| "put_entry e (x # xs) = (if entry_id x = entry_id e then e # xs else x # put_entry e xs)"

text \<open>
  Modelled from the spec: \<open>collection.upsert\<close> of the engine, "durable upsert-by-key over
  (embedding, metadata: name string, document: text) triples".
\<close>

definition collection_upsert :: "string \<Rightarrow> int list \<Rightarrow> string \<Rightarrow> string \<Rightarrow> collection \<Rightarrow> collection" where
  "collection_upsert k emb nm doc c =
     c\<lparr>entries := put_entry \<lparr>entry_id = k, embedding = emb, metadata_name = nm, document = doc\<rparr> (entries c),
       calls := calls c @ [Upsert_call k emb nm doc]\<rparr>"

text \<open>
  Modelled from the spec: \<open>collection.peek\<close> of the engine with an unbounded limit, "an
  enumeration/peek of all currently-stored keys"; the result's \<open>"ids"\<close> list. Keys of the
  engine are strings.
\<close>

definition collection_peek :: "collection \<Rightarrow> string list \<times> collection" where
  "collection_peek c = (map entry_id (entries c), c\<lparr>calls := calls c @ [Peek_call]\<rparr>)"

text \<open>
  Modelled from the spec: \<open>collection.get\<close> of the engine for one key, "point get-by-key
  returning the same triple or not found"; the result lists, one row per entry found.
\<close>

definition collection_get :: "string \<Rightarrow> collection \<Rightarrow> entry list \<times> collection" where
  "collection_get k c =
     (filter (\<lambda>e. entry_id e = k) (entries c), c\<lparr>calls := calls c @ [Get_call k]\<rparr>)"

text \<open>Modelled from the spec: \<open>collection.count\<close> of the engine, the number of entries.\<close>

definition collection_count :: "collection \<Rightarrow> nat \<times> collection" where
  "collection_count c = (length (entries c), c\<lparr>calls := calls c @ [Count_call]\<rparr>)"

text \<open>
  Modelled from the spec: \<open>collection.query\<close> of the engine for one query embedding,
  "k-nearest-neighbor query over embeddings returning, for requested k, the k closest entries
  ranked by ascending distance together with their distances and associated
  metadata/document". Entries at the same distance keep their insertion order. Each row of
  the result is an entry with its reported distance.
\<close>

definition collection_query :: "int list \<Rightarrow> nat \<Rightarrow> collection \<Rightarrow> (entry \<times> real) list \<times> collection" where
  "collection_query q k c =
     (map (\<lambda>e. (e, space c q (embedding e)))
          (take k (sort_key (\<lambda>e. space c q (embedding e)) (entries c))),
      c\<lparr>calls := calls c @ [Query_call q k]\<rparr>)"

section \<open>class DB\<close>

text \<open>
  Python's \<open>str\<close> on an integer: the decimal digits, with a minus sign for a negative
  number.
\<close>

definition digit_char :: "nat \<Rightarrow> char" where
  "digit_char d = ''0123456789'' ! d"

fun str_nat :: "nat \<Rightarrow> string" where
  "str_nat n = (if n < 10 then [digit_char n] else str_nat (n div 10) @ [digit_char (n mod 10)])"

declare str_nat.simps [simp del]

definition str :: "int \<Rightarrow> string" where
  "str i = (if i < 0 then CHR ''-'' # str_nat (nat (- i)) else str_nat (nat i))"

text \<open>
  \<open>DB.upsert\<close> (lines 24-30): the key is \<open>str(user_id)\<close>, the embedding the choices, the
  metadata the name, the document the comment. The method returns nothing; the model
  returns the new state of the collection.
\<close>

definition upsert :: "int \<Rightarrow> user \<Rightarrow> collection \<Rightarrow> collection" where
  "upsert user_id usr c =
     collection_upsert (str user_id) (choices usr) (name usr) (comment usr) c"

text \<open>
  Python values of the two types that meet in \<open>generate_id\<close>. Python's \<open>==\<close> never
  identifies an \<open>int\<close> with a \<open>str\<close>, as the two constructors are never equal.
\<close>

datatype pyval = PyInt int | PyStr string

text \<open>
  Line 33: \<open>set(range(1, 1000)).difference(ids)\<close>, where \<open>ids\<close> is the list of keys that
  \<open>peek\<close> returns. The left set holds \<open>int\<close> objects and \<open>ids\<close> holds \<open>str\<close> objects;
  \<open>difference\<close> removes the elements of the left set that are equal, as Python values, to
  an element of \<open>ids\<close>. The tuple of line 34 lists the set in some order; the model lists it
  in ascending order.
\<close>

definition available_ids :: "string list \<Rightarrow> int list" where
  "available_ids ids = filter (\<lambda>i. PyInt i \<notin> set (map PyStr ids)) [1..999]"

text \<open>
  \<open>random.choice\<close>: \<open>IndexError\<close> on an empty sequence, otherwise the element at a random
  index below the length. The random draw is the parameter \<open>r\<close>, reduced modulo the
  length: every draw gives an index in range and every index is given by some draw.
\<close>

definition random_choice :: "nat \<Rightarrow> 'a list \<Rightarrow> error + 'a" where
  "random_choice r xs = (if xs = [] then Inl IndexError else Inr (xs ! (r mod length xs)))"

text \<open>
  \<open>DB.generate_id\<close> (lines 32-35). The exception of \<open>random.choice\<close> is not caught.
\<close>

definition generate_id :: "nat \<Rightarrow> collection \<Rightarrow> (error + int) \<times> collection" where
  "generate_id r c =
     (let (ids, c1) = collection_peek c;
          available = available_ids ids
      in (random_choice r available, c1))"

text \<open>
  \<open>DB.get\<close> (lines 37-50): \<open>None\<close> when the engine finds no entry, otherwise a record
  built by the constructor from the first row.
\<close>

definition get :: "int \<Rightarrow> collection \<Rightarrow> user option \<times> collection" where
  "get user_id c =
     (let (result, c1) = collection_get (str user_id) c
      in case result of
           [] \<Rightarrow> (None, c1)
         | row # _ \<Rightarrow> (Some (User (metadata_name row) (embedding row) (document row)), c1))"

text \<open>
  \<open>DB.search\<close> (lines 52-67). With fewer than two entries it returns the pair
  \<open>(None, -1.0)\<close> at once. Otherwise it queries with \<open>n_results=2\<close> and reads row 1 (the
  second) of the result; indexing row 1 of a shorter result raises \<open>IndexError\<close>. The
  distances of the engine are floating-point numbers that the method only hands on; they are
  modelled as reals.
\<close>

definition search :: "user \<Rightarrow> collection \<Rightarrow> (error + user option \<times> real) \<times> collection" where
  "search usr c =
     (let (n, c1) = collection_count c
      in if n < 2 then (Inr (None, - 1), c1)
         else
           let (result, c2) = collection_query (choices usr) 2 c1
           in if length result \<le> 1 then (Inl IndexError, c2)
              else
                let row = result ! 1
                in (Inr (Some (User (metadata_name (fst row)) (embedding (fst row)) (document (fst row))),
                         snd row), c2))"

section \<open>Stores used in the scenarios\<close>

text \<open>
  Modelled from the spec: the distance function of the engine in the scenarios, the squared
  Euclidean distance, for which the specification's scenario reports 48.0 between [0,0,0]
  and [4,4,4].
\<close>

definition squared_l2 :: "int list \<Rightarrow> int list \<Rightarrow> real" where
  "squared_l2 q e = real_of_int (sum_list (map (\<lambda>(s, u). (s - u) ^ 2) (zip q e)))"

definition empty_collection :: collection where
  "empty_collection = \<lparr>entries = [], space = squared_l2, calls = []\<rparr>"

text \<open>Upserting the same record under each identifier of a list, in order.\<close>

fun upsert_each :: "int list \<Rightarrow> user \<Rightarrow> collection \<Rightarrow> collection" where
  "upsert_each [] usr c = c"
| "upsert_each (i # is) usr c = upsert_each is usr (upsert i usr c)"

text \<open>
  The scenario of the specification: two records with the choices [0,0,0] and [4,4,4],
  upserted under the identifiers 1 and 2 into an empty store; and the same store with a
  third record, choices [1,1,1], under the identifier 3.
\<close>

definition record_A :: user where
  "record_A = User ''A'' [0, 0, 0] ''first''"

definition record_B :: user where
  "record_B = User ''B'' [4, 4, 4] ''second''"

definition two_records :: collection where
  "two_records = upsert 2 record_B (upsert 1 record_A empty_collection)"

definition record_C :: user where
  "record_C = User ''C'' [1, 1, 1] ''third''"

definition three_records :: collection where
  "three_records = upsert 3 record_C two_records"

section \<open>Properties of the distance metric\<close>

lemma sum_list_zip_sq_nth:
  "sum_list (map (\<lambda>(s, u). (s - u) ^ 2) (zip xs ys))
     = (\<Sum>i < min (length xs) (length ys). (xs ! i - ys ! i) ^ 2)" for xs ys :: "int list"
proof -
  have "sum_list (map (\<lambda>(s, u). (s - u) ^ 2) (zip xs ys))
          = (\<Sum>i = 0..<length (zip xs ys). (\<lambda>(s, u). (s - u) ^ 2) (zip xs ys ! i))"
    by (simp add: sum_list_sum_nth)
  also have "\<dots> = (\<Sum>i = 0..<min (length xs) (length ys). (xs ! i - ys ! i) ^ 2)"
    by (rule sum.cong) auto
  finally show ?thesis
    by (simp add: lessThan_atLeast0)
qed

lemma sum_list_zip_sq_commute:
  "sum_list (map (\<lambda>(s, u). (s - u) ^ 2) (zip xs ys))
     = sum_list (map (\<lambda>(s, u). (s - u) ^ 2) (zip ys xs))" for xs ys :: "int list"
proof (induction xs arbitrary: ys)
  case Nil
  show ?case by simp
next
  case (Cons x xs)
  show ?case
  proof (cases ys)
    case Nil
    then show ?thesis by simp
  next
    case (Cons y ys')
    then show ?thesis
      using Cons.IH [of ys'] by (simp add: power2_commute [of x y])
  qed
qed

lemma sum_list_zip_sq_nonneg:
  "0 \<le> sum_list (map (\<lambda>(s, u). (s - u) ^ 2) (zip xs ys))" for xs ys :: "int list"
  by (rule sum_list_nonneg) auto

lemma sum_list_zip_sq_zero_iff:
  "length xs = length ys \<Longrightarrow>
     sum_list (map (\<lambda>(s, u). (s - u) ^ 2) (zip xs ys)) = 0 \<longleftrightarrow> xs = ys"
  for xs ys :: "int list"
proof (induction xs ys rule: list_induct2)
  case Nil
  show ?case by simp
next
  case (Cons x xs y ys)
  have nn: "0 \<le> sum_list (map (\<lambda>(s, u). (s - u) ^ 2) (zip xs ys))"
    by (rule sum_list_zip_sq_nonneg)
  have sq: "0 \<le> (x - y) ^ 2"
    by simp
  have "(x - y) ^ 2 + sum_list (map (\<lambda>(s, u). (s - u) ^ 2) (zip xs ys)) = 0
          \<longleftrightarrow> (x - y) ^ 2 = 0 \<and> sum_list (map (\<lambda>(s, u). (s - u) ^ 2) (zip xs ys)) = 0"
    using nn sq by arith
  then show ?case
    using Cons.IH by simp
qed

lemma zip_take_min:
  "zip (take (min (length xs) (length ys)) xs) (take (min (length xs) (length ys)) ys) = zip xs ys"
proof -
  have "zip (take (min (length xs) (length ys)) xs) (take (min (length xs) (length ys)) ys)
          = take (min (length xs) (length ys)) (zip xs ys)"
    by (simp add: take_zip)
  also have "\<dots> = zip xs ys"
    by simp
  finally show ?thesis .
qed

text \<open>
  C6. For two records whose choice vectors have the same length, \<open>distance\<close> returns the
  sum over all indices of the squared difference of the two vectors; for the vectors
  [0,0,0] and [4,4,4] it returns 48.
\<close>

theorem distance_sum_of_squares:
  "(length (choices a) = length (choices b) \<longrightarrow>
      distance a b = Inr (\<Sum>i < length (choices a). (choices a ! i - choices b ! i) ^ 2))
   \<and> distance (User n1 [0, 0, 0] c1) (User n2 [4, 4, 4] c2) = Inr 48"
  by (simp add: distance_def sum_list_zip_sq_nth User_def)

theorem distance_sum_of_squares_witness:
  "length (choices (User ''a'' [1, 2] ''x'')) = length (choices (User ''b'' [3, 5] ''y''))
   \<and> distance (User ''a'' [1, 2] ''x'') (User ''b'' [3, 5] ''y'') = Inr 13
   \<and> (\<Sum>i < length (choices (User ''a'' [1, 2] ''x'')).
         (choices (User ''a'' [1, 2] ''x'') ! i - choices (User ''b'' [3, 5] ''y'') ! i) ^ 2) = 13"
proof -
  have h: "length (choices (User ''a'' [1, 2] ''x'')) = length (choices (User ''b'' [3, 5] ''y''))"
    by (simp add: User_def)
  have s: "(\<Sum>i < length (choices (User ''a'' [1, 2] ''x'')).
         (choices (User ''a'' [1, 2] ''x'') ! i - choices (User ''b'' [3, 5] ''y'') ! i) ^ 2) = 13"
    by (simp add: User_def lessThan_nat_numeral lessThan_Suc)
  show ?thesis
    using h s distance_sum_of_squares [of "User ''a'' [1, 2] ''x''" "User ''b'' [3, 5] ''y''"]
    by simp
qed

text \<open>
  C9. For two records whose choice vectors have the same length, \<open>distance\<close> is symmetric,
  it is 0 exactly when the two vectors are identical, and the distance of a record to
  itself is 0.
\<close>

theorem distance_symmetric_zero_iff:
  "length (choices a) = length (choices b) \<Longrightarrow>
     distance a b = distance b a
     \<and> (distance a b = Inr 0 \<longleftrightarrow> choices a = choices b)
     \<and> distance a a = Inr 0"
proof (intro conjI)
  show "distance a b = distance b a"
    unfolding distance_def by (simp add: sum_list_zip_sq_commute [of "choices a" "choices b"])
next
  assume "length (choices a) = length (choices b)"
  then show "distance a b = Inr 0 \<longleftrightarrow> choices a = choices b"
    unfolding distance_def by (simp add: sum_list_zip_sq_zero_iff)
next
  show "distance a a = Inr 0"
    unfolding distance_def by (simp add: sum_list_zip_sq_zero_iff)
qed

theorem distance_symmetric_zero_iff_witness:
  "length (choices (User ''a'' [0, 3, 4] ''x'')) = length (choices (User ''b'' [4, 1, 4] ''y''))
   \<and> distance (User ''a'' [0, 3, 4] ''x'') (User ''b'' [4, 1, 4] ''y'') = Inr 20
   \<and> distance (User ''b'' [4, 1, 4] ''y'') (User ''a'' [0, 3, 4] ''x'') = Inr 20
   \<and> choices (User ''a'' [0, 3, 4] ''x'') \<noteq> choices (User ''b'' [4, 1, 4] ''y'')
   \<and> distance (User ''a'' [0, 3, 4] ''x'') (User ''a'' [0, 3, 4] ''x'') = Inr 0"
proof -
  have h: "length (choices (User ''a'' [0, 3, 4] ''x'')) = length (choices (User ''b'' [4, 1, 4] ''y''))"
    by (simp add: User_def)
  have v: "distance (User ''a'' [0, 3, 4] ''x'') (User ''b'' [4, 1, 4] ''y'') = Inr 20"
    by (simp add: distance_def User_def)
  show ?thesis
    using h v distance_symmetric_zero_iff [OF h] by auto
qed

text \<open>
  C10. \<open>distance\<close> is total on arbitrary pairs of integer lists: whatever the two lengths,
  it returns a value (it never raises), the value is the sum of the squared differences of
  the first \<open>min (len a) (len b)\<close> paired elements, and the elements of the longer list beyond
  that length do not influence it.
\<close>

theorem distance_total_truncating:
  "(\<exists>d. distance a b = Inr d)
   \<and> distance a b
       = Inr (\<Sum>i < min (length (choices a)) (length (choices b)). (choices a ! i - choices b ! i) ^ 2)
   \<and> distance a b
       = distance (a\<lparr>choices := take (min (length (choices a)) (length (choices b))) (choices a)\<rparr>)
                  (b\<lparr>choices := take (min (length (choices a)) (length (choices b))) (choices b)\<rparr>)"
  by (simp add: distance_def sum_list_zip_sq_nth zip_take_min)

text \<open>
  C2, as the code has it. The claim asks for a \<open>DimensionMismatch\<close> failure on vectors of
  different lengths; \<open>distance\<close> has no length check, and \<open>zip\<close> pairs up to the shorter
  vector. At [1,2,5] against [1,2] it returns 0.
\<close>

theorem distance_mismatch_counterexample:
  "length (choices (User ''a'' [1, 2, 5] ''x'')) \<noteq> length (choices (User ''b'' [1, 2] ''y''))
   \<and> distance (User ''a'' [1, 2, 5] ''x'') (User ''b'' [1, 2] ''y'') = Inr 0
   \<and> distance (User ''a'' [1, 2, 5] ''x'') (User ''b'' [1, 2] ''y'') \<noteq> Inl DimensionMismatch"
  by (simp add: distance_def User_def)

text \<open>
  C2, amended. For two records whose choice vectors have different lengths, \<open>distance\<close>
  does not fail (in particular not with \<open>DimensionMismatch\<close>): it returns the sum of the
  squared differences over the first \<open>min (len a) (len b)\<close> positions, the implicit pairing
  cutting the longer vector to the length of the shorter one.
\<close>

theorem distance_mismatch_truncates:
  "length (choices a) \<noteq> length (choices b) \<Longrightarrow>
     distance a b \<noteq> Inl DimensionMismatch
     \<and> distance a b
         = Inr (\<Sum>i < min (length (choices a)) (length (choices b)). (choices a ! i - choices b ! i) ^ 2)"
  by (simp add: distance_def sum_list_zip_sq_nth)

theorem distance_mismatch_truncates_witness:
  "length (choices (User ''a'' [0, 0, 9] ''x'')) \<noteq> length (choices (User ''b'' [4, 4] ''y''))
   \<and> distance (User ''a'' [0, 0, 9] ''x'') (User ''b'' [4, 4] ''y'') \<noteq> Inl DimensionMismatch
   \<and> distance (User ''a'' [0, 0, 9] ''x'') (User ''b'' [4, 4] ''y'') = Inr 32"
proof -
  have h: "length (choices (User ''a'' [0, 0, 9] ''x'')) \<noteq> length (choices (User ''b'' [4, 4] ''y''))"
    by (simp add: User_def)
  have s: "(\<Sum>i < min (length (choices (User ''a'' [0, 0, 9] ''x'')))
                      (length (choices (User ''b'' [4, 4] ''y''))).
              (choices (User ''a'' [0, 0, 9] ''x'') ! i - choices (User ''b'' [4, 4] ''y'') ! i) ^ 2) = 32"
    by (simp add: User_def lessThan_nat_numeral lessThan_Suc)
  show ?thesis
    using h s distance_mismatch_truncates [OF h] by simp
qed

section \<open>Properties of the record constructor\<close>

text \<open>
  C8, as the code has it. The claim says that an empty name is replaced by the "no answer"
  literal; \<open>__init__\<close> stores the name as given, so a record built with an empty name has an
  empty name.
\<close>

theorem User_empty_name_counterexample:
  "name (User '''' [0, 1] ''hello'') = '''' \<and> name (User '''' [0, 1] ''hello'') \<noteq> no_answer"
  by (simp add: User_def no_answer_def)

text \<open>
  C8, amended. The constructor stores the name exactly as given (an empty name stays empty);
  the "no answer" literal is the default of the comment: a record built with an empty comment
  has the literal as its comment, and the comment of every constructed record is non-empty.
\<close>

theorem User_defaults_comment_not_name:
  "name (User nm chs cmt) = nm
   \<and> comment (User nm chs '''') = no_answer
   \<and> comment (User nm chs cmt) \<noteq> ''''"
  by (simp add: User_def no_answer_def)

section \<open>Properties of the identifier allocator\<close>

text \<open>
  No stored key is ever removed from the candidates: the keys are strings, the candidates
  integers, and the two are never equal as Python values.
\<close>

lemma available_ids_all: "available_ids ids = [1..999]"
  unfolding available_ids_def by (rule filter_True) auto

lemma generate_id_draw: "fst (generate_id r c) = Inr (1 + int (r mod 999))"
proof -
  have len: "length [1..999::int] = 999"
    by simp
  have "r mod 999 < 999"
    by simp
  then have "[1..999::int] ! (r mod 999) = 1 + int (r mod 999)"
    by (intro nth_upto) linarith
  moreover have "[1..999::int] \<noteq> []"
    using len by fastforce
  ultimately show ?thesis
    by (simp add: generate_id_def collection_peek_def available_ids_all random_choice_def)
qed

lemma str_7: "str 7 = ''7''"
  by (simp add: str_def str_nat.simps digit_char_def)

lemma entry_id_put_entry:
  "entry_id ` set (put_entry e xs) = insert (entry_id e) (entry_id ` set xs)"
  by (induction xs) auto

lemma peek_upsert:
  "set (fst (collection_peek (upsert i u c))) = insert (str i) (set (fst (collection_peek c)))"
  by (simp add: collection_peek_def upsert_def collection_upsert_def entry_id_put_entry)

lemma peek_upsert_each:
  "set (fst (collection_peek (upsert_each is u c)))
     = set (map str is) \<union> set (fst (collection_peek c))"
  by (induction "is" arbitrary: c) (auto simp: peek_upsert)

text \<open>
  C1, the code at a failing input. After \<open>upsert(7, R)\<close> on an empty store the stored keys
  are the one string "7", which is \<open>str(7)\<close>; \<open>generate_id\<close> with the random draw that
  selects the seventh candidate returns 7, the identifier in use.
\<close>

theorem generate_id_returns_stored_id:
  "str 7 = ''7''
   \<and> fst (collection_peek (upsert 7 (User ''R'' [0, 0, 0] ''r'') empty_collection)) = [''7'']
   \<and> fst (generate_id 6 (upsert 7 (User ''R'' [0, 0, 0] ''r'') empty_collection)) = Inr 7"
  by (simp add: generate_id_draw collection_peek_def upsert_def collection_upsert_def
      empty_collection_def str_7)

text \<open>
  C5, as the code has it. On a store that holds an entry under each of the identifiers
  1..999 the allocator does not fail with \<open>PoolExhausted\<close>: it returns a value.
\<close>

theorem generate_id_full_pool_counterexample:
  "set (fst (collection_peek (upsert_each [1..999] (User ''R'' [0, 0, 0] ''r'') empty_collection)))
     = set (map str [1..999])
   \<and> fst (generate_id 0 (upsert_each [1..999] (User ''R'' [0, 0, 0] ''r'') empty_collection))
       \<noteq> Inl PoolExhausted
   \<and> fst (generate_id 0 (upsert_each [1..999] (User ''R'' [0, 0, 0] ''r'') empty_collection))
       = Inr 1"
proof -
  have "fst (collection_peek empty_collection) = []"
    by (simp add: collection_peek_def empty_collection_def)
  then show ?thesis
    by (simp add: peek_upsert_each generate_id_draw)
qed

text \<open>
  C5, amended. The allocator never fails with \<open>PoolExhausted\<close>, whatever the store and
  the random draw: exhaustion is not handled. Its result is the result of \<open>random.choice\<close>
  on the tuple of candidates, uncaught, and \<open>random.choice\<close> fails exactly on an empty tuple,
  with \<open>IndexError\<close>.
\<close>

theorem generate_id_never_pool_exhausted:
  "fst (generate_id r c) \<noteq> Inl PoolExhausted
   \<and> fst (generate_id r c) = random_choice r (available_ids (fst (collection_peek c)))
   \<and> (random_choice r xs = Inl e) = (xs = [] \<and> e = IndexError)"
proof (intro conjI)
  show g: "fst (generate_id r c) = random_choice r (available_ids (fst (collection_peek c)))"
    by (simp add: generate_id_def collection_peek_def Let_def)
  show "fst (generate_id r c) \<noteq> Inl PoolExhausted"
    unfolding g by (simp add: random_choice_def)
  show "(random_choice r xs = Inl e) = (xs = [] \<and> e = IndexError)"
    by (auto simp: random_choice_def)
qed

section \<open>Properties of the participant store\<close>

lemma filter_put_entry:
  "\<exists>rest. filter (\<lambda>x. entry_id x = entry_id e) (put_entry e xs) = e # rest"
  by (induction xs) auto

lemma User_again: "comment u \<noteq> [] \<Longrightarrow> User (name u) (choices u) (comment u) = u"
  by (simp add: User_def)

text \<open>
  C7. For every identifier, every store and every record built by the constructor, \<open>get\<close>
  with the identifier right after \<open>upsert\<close> with the same identifier returns a record with
  the name, the choices and the comment that were written. (The engine's floating-point
  representation of the embedding is outside the model: the store returns the integers it
  was given.)
\<close>

theorem get_after_upsert:
  "fst (get user_id (upsert user_id (User nm chs cmt) c)) = Some (User nm chs cmt)"
proof -
  let ?u = "User nm chs cmt"
  let ?e = "\<lparr>entry_id = str user_id, embedding = choices ?u,
             metadata_name = name ?u, document = comment ?u\<rparr>"
  obtain rest where r: "filter (\<lambda>x. entry_id x = entry_id ?e) (put_entry ?e (entries c)) = ?e # rest"
    using filter_put_entry by blast
  have "comment ?u \<noteq> []"
    by (simp add: User_def no_answer_def)
  then have "User (name ?u) (choices ?u) (comment ?u) = ?u"
    by (rule User_again)
  then show ?thesis
    using r by (simp add: get_def upsert_def collection_get_def collection_upsert_def)
qed

text \<open>
  C4. For every record, if the store holds fewer than two entries, \<open>search\<close> returns the
  absent result, the pair \<open>(None, -1.0)\<close>, and the only operation it has issued on the
  store is the count: the log grows by the count alone, so no query was issued.
\<close>

theorem search_fewer_than_two_absent:
  "length (entries c) < 2 \<Longrightarrow>
     search usr c = (Inr (None, - 1), c\<lparr>calls := calls c @ [Count_call]\<rparr>)"
  by (simp add: search_def collection_count_def)

theorem search_fewer_than_two_absent_witness:
  "length (entries (upsert 1 (User ''a'' [0, 0, 0] ''x'') empty_collection)) < 2
   \<and> fst (search (User ''a'' [0, 0, 0] ''x'') (upsert 1 (User ''a'' [0, 0, 0] ''x'') empty_collection))
       = Inr (None, - 1)
   \<and> calls (snd (search (User ''a'' [0, 0, 0] ''x'') (upsert 1 (User ''a'' [0, 0, 0] ''x'') empty_collection)))
       = [Upsert_call ''1'' [0, 0, 0] ''a'' ''x'', Count_call]"
proof -
  have h: "length (entries (upsert 1 (User ''a'' [0, 0, 0] ''x'') empty_collection)) < 2"
    by (simp add: upsert_def collection_upsert_def empty_collection_def)
  have l: "calls (upsert 1 (User ''a'' [0, 0, 0] ''x'') empty_collection)
             = [Upsert_call ''1'' [0, 0, 0] ''a'' ''x'']"
    by (simp add: upsert_def collection_upsert_def empty_collection_def User_def
        str_def str_nat.simps digit_char_def)
  show ?thesis
    using h l search_fewer_than_two_absent [OF h, of "User ''a'' [0, 0, 0] ''x''"] by simp
qed

lemma sort_key_two:
  fixes f :: "'a \<Rightarrow> real"
  assumes "2 \<le> length xs"
  shows "\<exists>e0 e1 rest. sort_key f xs = e0 # e1 # rest \<and> mset xs = {#e0, e1#} + mset rest
           \<and> f e0 \<le> f e1 \<and> (\<forall>e \<in> set rest. f e1 \<le> f e)"
proof -
  have "2 \<le> length (sort_key f xs)"
    using assms by simp
  then obtain e0 e1 rest where ys: "sort_key f xs = e0 # e1 # rest"
    by (metis Suc_le_length_iff numeral_2_eq_2)
  have "mset (sort_key f xs) = mset xs"
    by simp
  then have m: "mset xs = {#e0, e1#} + mset rest"
    using ys by simp
  have "sorted (map f (sort_key f xs))"
    by simp
  then have "f e0 \<le> f e1 \<and> (\<forall>e \<in> set rest. f e1 \<le> f e)"
    using ys by simp
  then show ?thesis
    using ys m by blast
qed

text \<open>
  C3. If the store holds at least two entries, \<open>search\<close> issues, after the count, one query
  with the record's choices and two requested results, and returns the second row of that
  query: the entry rebuilt as a record by the constructor, with the distance the engine
  reports for it. That entry is the second-closest: the store splits into the first row
  \<open>e0\<close>, the returned entry \<open>e1\<close> and the remaining entries, \<open>e0\<close> is at most as far from the
  query as \<open>e1\<close>, and every remaining entry is at least as far as \<open>e1\<close>. (That the first row
  is the querying record itself is the caller's assumption; \<open>search\<close> does not check it.)
\<close>

theorem search_returns_second_closest:
  assumes "2 \<le> length (entries c)"
  shows "\<exists>e0 e1 rest.
      fst (collection_query (choices usr) 2 c)
        = [(e0, space c (choices usr) (embedding e0)), (e1, space c (choices usr) (embedding e1))]
    \<and> search usr c
        = (Inr (Some (User (metadata_name e1) (embedding e1) (document e1)),
                space c (choices usr) (embedding e1)),
           c\<lparr>calls := calls c @ [Count_call, Query_call (choices usr) 2]\<rparr>)
    \<and> mset (entries c) = {#e0, e1#} + mset rest
    \<and> space c (choices usr) (embedding e0) \<le> space c (choices usr) (embedding e1)
    \<and> (\<forall>e \<in> set rest. space c (choices usr) (embedding e1) \<le> space c (choices usr) (embedding e))"
proof -
  let ?f = "\<lambda>e. space c (choices usr) (embedding e)"
  obtain e0 e1 rest where s: "sort_key ?f (entries c) = e0 # e1 # rest"
    and m: "mset (entries c) = {#e0, e1#} + mset rest"
    and o: "?f e0 \<le> ?f e1" "\<forall>e \<in> set rest. ?f e1 \<le> ?f e"
    using sort_key_two [OF assms, of ?f] by blast
  have q: "fst (collection_query (choices usr) 2 c) = [(e0, ?f e0), (e1, ?f e1)]"
    using s by (simp add: collection_query_def numeral_2_eq_2)
  have "search usr c
        = (Inr (Some (User (metadata_name e1) (embedding e1) (document e1)), ?f e1),
           c\<lparr>calls := calls c @ [Count_call, Query_call (choices usr) 2]\<rparr>)"
    using assms s by (simp add: search_def collection_count_def collection_query_def numeral_2_eq_2)
  then show ?thesis
    using q m o by blast
qed

lemmas scenario_defs =
  three_records_def two_records_def upsert_def collection_upsert_def empty_collection_def
  record_A_def record_B_def record_C_def User_def squared_l2_def
  str_def str_nat.simps digit_char_def

theorem search_returns_second_closest_witness:
  "2 \<le> length (entries three_records)
   \<and> fst (search record_A three_records) = Inr (Some record_C, 3)
   \<and> calls (snd (search record_A three_records))
       = calls three_records @ [Count_call, Query_call [0, 0, 0] 2]
   \<and> (\<exists>e0 e1 rest.
         fst (collection_query (choices record_A) 2 three_records)
           = [(e0, space three_records (choices record_A) (embedding e0)),
              (e1, space three_records (choices record_A) (embedding e1))]
         \<and> mset (entries three_records) = {#e0, e1#} + mset rest
         \<and> length rest = 1
         \<and> (\<forall>e \<in> set rest. space three_records (choices record_A) (embedding e1)
                              \<le> space three_records (choices record_A) (embedding e)))
   \<and> fst (search record_A two_records) = Inr (Some record_B, 48)"
proof -
  have h: "2 \<le> length (entries three_records)"
    by (simp add: scenario_defs)
  have n: "length (entries three_records) = 3"
    by (simp add: scenario_defs)
  have v: "fst (search record_A three_records) = Inr (Some record_C, 3)"
    by (simp add: search_def collection_count_def collection_query_def scenario_defs)
  have w: "fst (search record_A two_records) = Inr (Some record_B, 48)"
    by (simp add: search_def collection_count_def collection_query_def scenario_defs)
  have ch: "choices record_A = [0, 0, 0]"
    by (simp add: record_A_def User_def)
  obtain e0 e1 rest where
    q: "fst (collection_query (choices record_A) 2 three_records)
          = [(e0, space three_records (choices record_A) (embedding e0)),
             (e1, space three_records (choices record_A) (embedding e1))]"
    and s: "search record_A three_records
          = (Inr (Some (User (metadata_name e1) (embedding e1) (document e1)),
                  space three_records (choices record_A) (embedding e1)),
             three_records\<lparr>calls := calls three_records @ [Count_call, Query_call (choices record_A) 2]\<rparr>)"
    and m: "mset (entries three_records) = {#e0, e1#} + mset rest"
    and o: "\<forall>e \<in> set rest. space three_records (choices record_A) (embedding e1)
                              \<le> space three_records (choices record_A) (embedding e)"
    using search_returns_second_closest [OF h, of record_A] by blast
  have "size (mset (entries three_records)) = size ({#e0, e1#} + mset rest)"
    using m by simp
  then have l: "length rest = 1"
    using n by simp
  have c: "calls (snd (search record_A three_records))
             = calls three_records @ [Count_call, Query_call [0, 0, 0] 2]"
    using s ch by simp
  show ?thesis
    using h v c q m l o w by blast
qed

end
